theory Spec2Isabelle
  imports Complex_Main "HOL-Library.AList"
begin

section \<open>JavaScript values\<close>

text \<open>
  The gateway is JavaScript over untyped JSON payloads.  A value is one of the seven
  shapes a parsed JSON document or a property read can have; \<open>JUndefined\<close> is what
  reading a missing property gives.  An object is an association list, read through
  \<open>map_of\<close>.  Strings are lists of 8-bit code units.  A number is an IEEE double:
  \<open>JNum r\<close> is the JSON number with the decimal value \<open>r\<close>, which the runtime holds as
  the double nearest to \<open>r\<close> (\<open>to_double\<close>); no handler does arithmetic on a number
  (one compares, the others copy or print).
\<close>

datatype jsval =
    JUndefined
  | JNull
  | JBool bool
  | JNum rat
  | JStr string
  | JArr "jsval list"
  | JObj "(string \<times> jsval) list"

text \<open>The result of \<open>ToNumber\<close>, which can be \<open>NaN\<close> or infinite.\<close>

datatype number = NaN | Finite rat | PosInfinity | NegInfinity

subsection \<open>Doubles\<close>

text \<open>Powers of two and of ten with an integer exponent.\<close>

definition pow2 :: "int \<Rightarrow> rat" where
  "pow2 e = (if 0 \<le> e then 2 ^ nat e else 1 / 2 ^ nat (- e))"

definition pow10 :: "int \<Rightarrow> rat" where
  "pow10 e = (if 0 \<le> e then 10 ^ nat e else 1 / 10 ^ nat (- e))"

text \<open>The number of binary digits of a positive integer.\<close>

function bit_length :: "int \<Rightarrow> nat" where
  "bit_length n = (if n \<le> 0 then 0 else Suc (bit_length (n div 2)))"
  by pat_completeness auto
termination
  by (relation "measure nat") auto

declare bit_length.simps [simp del]

text \<open>
  For \<open>a > 0\<close>, the exponent \<open>e\<close> with \<open>2^e \<le> a < 2^(e+1)\<close>, not below the exponent
  \<open>-1022\<close> of the smallest normal double (below it the doubles are equally spaced).
\<close>

definition binary_exponent :: "rat \<Rightarrow> int" where
  "binary_exponent a =
     (if 1 \<le> a then int (bit_length \<lfloor>a\<rfloor>) - 1
      else max (- 1022) (- int (bit_length (\<lceil>1 / a\<rceil> - 1))))"

text \<open>Rounding to the nearest integer, a tie to the even one.\<close>

definition round_half_even :: "rat \<Rightarrow> int" where
  "round_half_even y =
     (let f = \<lfloor>y\<rfloor>; d = y - of_int f
      in if d < 1 / 2 then f else if 1 / 2 < d then f + 1 else if even f then f else f + 1)"

text \<open>
  The Number value for a real: the nearest double (53 significant bits at the exponent
  of the value, ties to even), an infinity from \<open>2^1024\<close> on.
\<close>

definition to_double :: "rat \<Rightarrow> number" where
  "to_double r =
     (let a = \<bar>r\<bar>;
          ulp = pow2 (binary_exponent a - 52);
          v = of_int (round_half_even (a / ulp)) * ulp
      in if r = 0 then Finite 0
         else if 2 ^ 1024 \<le> v then (if r < 0 then NegInfinity else PosInfinity)
         else Finite (if r < 0 then - v else v))"

subsection \<open>Truthiness and nullish values\<close>

fun truthy :: "jsval \<Rightarrow> bool" where
  "truthy JUndefined = False"
| "truthy JNull = False"
| "truthy (JBool b) = b"
| "truthy (JNum r) = (to_double r \<noteq> Finite 0)"
| "truthy (JStr s) = (s \<noteq> [])"
| "truthy (JArr xs) = True"
| "truthy (JObj fs) = True"

fun nullish :: "jsval \<Rightarrow> bool" where
  "nullish JUndefined = True"
| "nullish JNull = True"
| "nullish v = False"

text \<open>\<open>a || b\<close> on values.\<close>

definition js_or :: "jsval \<Rightarrow> jsval \<Rightarrow> jsval" where
  "js_or a b = (if truthy a then a else b)"

subsection \<open>ToString\<close>

definition digit_char :: "nat \<Rightarrow> char" where
  "digit_char d = char_of (48 + d)"

fun string_of_nat :: "nat \<Rightarrow> string" where
  "string_of_nat n =
     (if n < 10 then [digit_char n] else string_of_nat (n div 10) @ [digit_char (n mod 10)])"

declare string_of_nat.simps [simp del]

text \<open>The decimal digits of an integer that is not negative (\<open>string_of_nat\<close> on \<open>int\<close>).\<close>

function string_of_int :: "int \<Rightarrow> string" where
  "string_of_int n =
     (if n < 10 then [digit_char (nat n)]
      else string_of_int (n div 10) @ [digit_char (nat (n mod 10))])"
  by pat_completeness auto
termination
  by (relation "measure nat") auto

declare string_of_int.simps [simp del]

text \<open>For \<open>x > 0\<close>, the \<open>n\<close> with \<open>10^(n-1) \<le> x < 10^n\<close>.\<close>

definition decimal_exponent :: "rat \<Rightarrow> int" where
  "decimal_exponent x =
     (if 1 \<le> x then int (length (string_of_int \<lfloor>x\<rfloor>))
      else 1 - int (length (string_of_int (\<lceil>1 / x\<rceil> - 1))))"

text \<open>
  The \<open>k\<close>-digit decimals next to \<open>x\<close>, below and above (\<open>s * 10^(n-k)\<close>): the one
  that reads back as \<open>x\<close>, the closer one when both do, the even one on a tie.
\<close>

definition digits_at :: "rat \<Rightarrow> int \<Rightarrow> nat \<Rightarrow> int option" where
  "digits_at x n k =
     (let u = pow10 (n - int k);
          lo = \<lfloor>x / u\<rfloor>;
          hi = \<lceil>x / u\<rceil>;
          lo_ok = (to_double (of_int lo * u) = Finite x);
          hi_ok = (to_double (of_int hi * u) = Finite x)
      in if lo_ok \<and> hi_ok
           then (if x / u - of_int lo < of_int hi - x / u then Some lo
                 else if of_int hi - x / u < x / u - of_int lo then Some hi
                 else if even lo then Some lo else Some hi)
         else if lo_ok then Some lo
         else if hi_ok then Some hi
         else None)"

text \<open>
  The digits \<open>s\<close> and their number \<open>k\<close>, with \<open>k\<close> as small as possible: the
  counts are tried upwards from \<open>k\<close>, and when the fuel is used up the digits are \<open>x\<close>
  rounded to that count.  From one digit with fuel 16 that count is 17, and 17 digits
  read back as the double they came from.
\<close>

fun shortest :: "nat \<Rightarrow> rat \<Rightarrow> int \<Rightarrow> nat \<Rightarrow> int \<times> nat" where
  "shortest 0 x n k = (round_half_even (x / pow10 (n - int k)), k)"
| "shortest (Suc fuel) x n k =
     (case digits_at x n k of
        Some s \<Rightarrow> (s, k)
      | None \<Rightarrow> shortest fuel x n (Suc k))"

definition strip_zeros :: "string \<Rightarrow> string" where
  "strip_zeros ds = rev (dropWhile (\<lambda>c. c = CHR ''0'') (rev ds))"

definition exponent_text :: "int \<Rightarrow> string" where
  "exponent_text e = (if e < 0 then ''-'' else ''+'') @ string_of_int \<bar>e\<bar>"

text \<open>
  \<open>Number::toString\<close> in radix 10 for a positive double: digits and zeros up to
  \<open>10^21\<close>, a decimal point inside the digits, \<open>0.\<close> and up to six zeros before them,
  the exponent form otherwise.
\<close>

definition positive_to_string :: "rat \<Rightarrow> string" where
  "positive_to_string x =
     (let n0 = decimal_exponent x;
          (s, k0) = shortest 16 x n0 1;
          all = string_of_int s;
          n = n0 + int (length all) - int k0;
          ds = strip_zeros all;
          k = int (length ds)
      in if k \<le> n \<and> n \<le> 21 then ds @ replicate (nat (n - k)) CHR ''0''
         else if 0 < n \<and> n \<le> 21 then take (nat n) ds @ ''.'' @ drop (nat n) ds
         else if - 6 < n \<and> n \<le> 0 then ''0.'' @ replicate (nat (- n)) CHR ''0'' @ ds
         else if k = 1 then ds @ ''e'' @ exponent_text (n - 1)
         else hd ds # ''.'' @ tl ds @ ''e'' @ exponent_text (n - 1))"

text \<open>\<open>Number::toString\<close> of the double that \<open>r\<close> stands for.\<close>

definition number_to_string :: "rat \<Rightarrow> string" where
  "number_to_string r =
     (case to_double r of
        NaN \<Rightarrow> ''NaN''
      | PosInfinity \<Rightarrow> ''Infinity''
      | NegInfinity \<Rightarrow> ''-Infinity''
      | Finite x \<Rightarrow>
          if x = 0 then ''0''
          else if x < 0 then ''-'' @ positive_to_string (- x)
          else positive_to_string x)"

text \<open>\<open>Array.prototype.join\<close> on strings already converted.\<close>

fun join :: "string \<Rightarrow> string list \<Rightarrow> string" where
  "join sep [] = []"
| "join sep [s] = s"
| "join sep (s # t # ss) = s @ sep @ join sep (t # ss)"

text \<open>
  \<open>ToString\<close>.  An array prints its elements joined by commas, \<open>null\<close> and
  \<open>undefined\<close> elements as the empty string; a plain object prints as
  \<open>[object Object]\<close>.
\<close>

fun to_string :: "jsval \<Rightarrow> string" where
  "to_string JUndefined = ''undefined''"
| "to_string JNull = ''null''"
| "to_string (JBool b) = (if b then ''true'' else ''false'')"
| "to_string (JNum r) = number_to_string r"
| "to_string (JStr s) = s"
| "to_string (JArr xs) = join '','' (map (\<lambda>x. if nullish x then [] else to_string x) xs)"
| "to_string (JObj fs) = ''[object Object]''"

text \<open>\<open>s + v\<close> with a string on the left: string concatenation.\<close>

definition str_plus :: "string \<Rightarrow> jsval \<Rightarrow> jsval" where
  "str_plus s v = JStr (s @ to_string v)"

subsection \<open>ToNumber and the relational comparison\<close>

definition is_ws :: "char \<Rightarrow> bool" where
  "is_ws c = ((of_char c :: nat) \<in> {9, 10, 11, 12, 13, 32, 160})"

definition trim :: "string \<Rightarrow> string" where
  "trim s = rev (dropWhile is_ws (rev (dropWhile is_ws s)))"

text \<open>The value of a digit in a radix, \<open>None\<close> when the character is no digit of it.\<close>

definition digit_val :: "nat \<Rightarrow> char \<Rightarrow> nat option" where
  "digit_val radix c =
     (let n = (of_char c :: nat);
          v = (if 48 \<le> n \<and> n \<le> 57 then n - 48
               else if 97 \<le> n \<and> n \<le> 102 then n - 87
               else if 65 \<le> n \<and> n \<le> 70 then n - 55
               else radix)
      in if v < radix then Some v else None)"

definition is_digit :: "char \<Rightarrow> bool" where
  "is_digit c = (digit_val 10 c \<noteq> None)"

text \<open>A non-empty run of digits read in a radix.\<close>

fun digits_acc :: "nat \<Rightarrow> int \<Rightarrow> string \<Rightarrow> int option" where
  "digits_acc radix acc [] = Some acc"
| "digits_acc radix acc (c # cs) =
     (case digit_val radix c of
        None \<Rightarrow> None
      | Some v \<Rightarrow> digits_acc radix (acc * int radix + int v) cs)"

definition digits_value :: "nat \<Rightarrow> string \<Rightarrow> int option" where
  "digits_value radix s = (if s = [] then None else digits_acc radix 0 s)"

text \<open>\<open>SignedInteger\<close> of an exponent part.\<close>

fun signed_integer :: "string \<Rightarrow> int option" where
  "signed_integer (c # cs) =
     (if c = CHR ''+'' then digits_value 10 cs
      else if c = CHR ''-'' then map_option uminus (digits_value 10 cs)
      else digits_value 10 (c # cs))"
| "signed_integer [] = None"

text \<open>What may follow the mantissa: nothing, or \<open>e\<close>/\<open>E\<close> and a signed integer.\<close>

fun exponent_part :: "string \<Rightarrow> int option" where
  "exponent_part [] = Some 0"
| "exponent_part (c # cs) =
     (if c = CHR ''e'' \<or> c = CHR ''E'' then signed_integer cs else None)"

text \<open>
  The Number value for \<open>m * 10^t\<close>, where \<open>m\<close> has \<open>len\<close> digits.  The exponent is
  cut to the range from \<open>-(len + 400)\<close> to \<open>400\<close>: beyond it the value is already below
  every positive double or above every finite one, so the result is the same.
\<close>

definition decimal_value :: "int \<Rightarrow> int \<Rightarrow> nat \<Rightarrow> number" where
  "decimal_value m t len = to_double (of_int m * pow10 (max (- (int len + 400)) (min t 400)))"

text \<open>\<open>StrUnsignedDecimalLiteral\<close>.\<close>

definition unsigned_decimal :: "string \<Rightarrow> number" where
  "unsigned_decimal s =
     (if s = ''Infinity'' then PosInfinity
      else
        let ip = takeWhile is_digit s;
            r1 = dropWhile is_digit s;
            fp = (case r1 of [] \<Rightarrow> [] | c # t \<Rightarrow> if c = CHR ''.'' then takeWhile is_digit t else []);
            r2 = (case r1 of [] \<Rightarrow> [] | c # t \<Rightarrow> if c = CHR ''.'' then dropWhile is_digit t else r1)
        in if ip = [] \<and> fp = [] then NaN
           else (case exponent_part r2 of
                   None \<Rightarrow> NaN
                 | Some e \<Rightarrow>
                     (case digits_value 10 (ip @ fp) of
                        None \<Rightarrow> NaN
                      | Some m \<Rightarrow> decimal_value m (e - int (length fp)) (length (ip @ fp)))))"

definition negate :: "number \<Rightarrow> number" where
  "negate x = (case x of NaN \<Rightarrow> NaN | Finite r \<Rightarrow> Finite (- r)
                | PosInfinity \<Rightarrow> NegInfinity | NegInfinity \<Rightarrow> PosInfinity)"

definition radix_literal :: "nat \<Rightarrow> string \<Rightarrow> number" where
  "radix_literal radix s =
     (case digits_value radix s of None \<Rightarrow> NaN | Some n \<Rightarrow> to_double (of_int n))"

text \<open>
  \<open>StringToNumber\<close>: white space is trimmed, the empty string is \<open>0\<close>, a literal with
  a radix prefix carries no sign, anything outside the grammar is \<open>NaN\<close>.  The value of
  a literal is rounded to the nearest double, as Node's engine does for every length of
  literal.
\<close>

definition string_to_number :: "string \<Rightarrow> number" where
  "string_to_number s =
     (let t = trim s
      in case t of
           [] \<Rightarrow> Finite 0
         | c # u \<Rightarrow>
             (if c = CHR ''0'' \<and> u \<noteq> [] \<and> hd u \<in> {CHR ''x'', CHR ''X''} then radix_literal 16 (tl u)
              else if c = CHR ''0'' \<and> u \<noteq> [] \<and> hd u \<in> {CHR ''o'', CHR ''O''} then radix_literal 8 (tl u)
              else if c = CHR ''0'' \<and> u \<noteq> [] \<and> hd u \<in> {CHR ''b'', CHR ''B''} then radix_literal 2 (tl u)
              else if c = CHR ''+'' then unsigned_decimal u
              else if c = CHR ''-'' then negate (unsigned_decimal u)
              else unsigned_decimal t))"

text \<open>\<open>ToPrimitive\<close>: arrays and objects become their strings.\<close>

fun to_primitive :: "jsval \<Rightarrow> jsval" where
  "to_primitive (JArr xs) = JStr (to_string (JArr xs))"
| "to_primitive (JObj fs) = JStr (to_string (JObj fs))"
| "to_primitive v = v"

fun to_number :: "jsval \<Rightarrow> number" where
  "to_number JUndefined = NaN"
| "to_number JNull = Finite 0"
| "to_number (JBool b) = Finite (if b then 1 else 0)"
| "to_number (JNum r) = to_double r"
| "to_number (JStr s) = string_to_number s"
| "to_number (JArr xs) = string_to_number (to_string (JArr xs))"
| "to_number (JObj fs) = NaN"

text \<open>\<open>x < y\<close> on numbers; any comparison with \<open>NaN\<close> is false.\<close>

fun number_less :: "number \<Rightarrow> number \<Rightarrow> bool" where
  "number_less NaN y = False"
| "number_less x NaN = False"
| "number_less (Finite a) (Finite b) = (a < b)"
| "number_less (Finite a) PosInfinity = True"
| "number_less (Finite a) NegInfinity = False"
| "number_less PosInfinity y = False"
| "number_less NegInfinity NegInfinity = False"
| "number_less NegInfinity y = True"

text \<open>\<open>a < b\<close> on strings: by code units, a proper prefix is smaller.\<close>

fun string_less :: "string \<Rightarrow> string \<Rightarrow> bool" where
  "string_less [] [] = False"
| "string_less [] (d # ds) = True"
| "string_less (c # cs) [] = False"
| "string_less (c # cs) (d # ds) =
     ((of_char c :: nat) < of_char d \<or> (c = d \<and> string_less cs ds))"

text \<open>
  \<open>x > y\<close>: both sides are made primitive; two strings compare as strings, anything else
  as numbers.
\<close>

definition js_gt :: "jsval \<Rightarrow> jsval \<Rightarrow> bool" where
  "js_gt x y =
     (case (to_primitive x, to_primitive y) of
        (JStr a, JStr b) \<Rightarrow> string_less b a
      | (px, py) \<Rightarrow> number_less (to_number py) (to_number px))"

section \<open>Failures and responses\<close>

text \<open>
  What a \<open>catch\<close> block receives.  \<open>response\<close> is \<open>err.response\<close> (the upstream's
  reply, with its status and body), \<open>request\<close> says whether \<open>err.request\<close> is
  set.  A failure raised by the handler's own code, such as a \<open>TypeError\<close>, has neither.
\<close>

record upstream_reply =
  status :: nat
  data :: jsval

record js_error =
  response :: "upstream_reply option"
  request :: bool

definition TypeError :: js_error where
  "TypeError = \<lparr>response = None, request = False\<rparr>"

text \<open>What is written to the client: the status code and the body given to \<open>send\<close>.\<close>

datatype body = Text string | Json jsval

record express_response =
  statusCode :: nat
  sent :: body

text \<open>\<open>response.send(v)\<close> on a fresh response: status 200.\<close>

definition send :: "jsval \<Rightarrow> express_response" where
  "send v = \<lparr>statusCode = 200, sent = Json v\<rparr>"

text \<open>
  \<open>handleError\<close>, the same function in the movie, anime and TV route files.  The log
  lines are not part of the model.
\<close>

definition handleError :: "js_error \<Rightarrow> express_response" where
  "handleError err =
     (case response err of
        Some r \<Rightarrow> \<lparr>statusCode = status r, sent = Text ''Error fetching data from API.''\<rparr>
      | None \<Rightarrow>
          if request err then \<lparr>statusCode = 500, sent = Text ''No response received from API.''\<rparr>
          else \<lparr>statusCode = 500, sent = Text ''Internal Server Error.''\<rparr>)"

section \<open>Property reads and array methods\<close>

text \<open>
  Reading a property: of an object, the value bound to the key, \<open>undefined\<close> when there
  is none; of \<open>null\<close> or \<open>undefined\<close>, a \<open>TypeError\<close>; of any other value,
  \<open>undefined\<close>.  The last case stands for the named keys that the handlers read
  (\<open>results\<close>, \<open>backdrop_path\<close>, \<open>name\<close>, ...): none of them is an index, \<open>length\<close> or
  a member that strings, arrays, numbers or booleans inherit.
\<close>

fun js_prop :: "jsval \<Rightarrow> string \<Rightarrow> jsval" where
  "js_prop (JObj fs) k = (case map_of fs k of None \<Rightarrow> JUndefined | Some v \<Rightarrow> v)"
| "js_prop v k = JUndefined"

definition get_prop :: "jsval \<Rightarrow> string \<Rightarrow> js_error + jsval" where
  "get_prop v k = (if nullish v then Inl TypeError else Inr (js_prop v k))"

text \<open>Sequencing of steps that may throw: the first failure is the result.\<close>

definition and_then :: "js_error + 'a \<Rightarrow> ('a \<Rightarrow> js_error + 'b) \<Rightarrow> js_error + 'b" where
  "and_then m f = (case m of Inl e \<Rightarrow> Inl e | Inr x \<Rightarrow> f x)"

fun map_throwing :: "('a \<Rightarrow> js_error + 'b) \<Rightarrow> 'a list \<Rightarrow> js_error + 'b list" where
  "map_throwing f [] = Inr []"
| "map_throwing f (x # xs) =
     and_then (f x) (\<lambda>y. and_then (map_throwing f xs) (\<lambda>ys. Inr (y # ys)))"

text \<open>
  \<open>v.slice(0, n)\<close> exists on arrays and on strings; \<open>v.map(f)\<close> on arrays only.
  Calling either on a value that has no such method is a \<open>TypeError\<close>.
\<close>

fun js_slice :: "nat \<Rightarrow> jsval \<Rightarrow> js_error + jsval" where
  "js_slice n (JArr xs) = Inr (JArr (take n xs))"
| "js_slice n (JStr s) = Inr (JStr (take n s))"
| "js_slice n v = Inl TypeError"

fun js_map :: "(jsval \<Rightarrow> js_error + jsval) \<Rightarrow> jsval \<Rightarrow> js_error + jsval" where
  "js_map f (JArr xs) = and_then (map_throwing f xs) (\<lambda>ys. Inr (JArr ys))"
| "js_map f v = Inl TypeError"

text \<open>
  The own enumerable properties that \<open>{...v}\<close> copies: the bindings of an object, the
  indexed elements of an array or of a string, nothing of any other value.
\<close>

fun own_props :: "jsval \<Rightarrow> (string \<times> jsval) list" where
  "own_props (JObj fs) = fs"
| "own_props (JArr xs) = zip (map string_of_nat [0..<length xs]) xs"
| "own_props (JStr s) = zip (map string_of_nat [0..<length s]) (map (\<lambda>c. JStr [c]) s)"
| "own_props v = []"

section \<open>Configuration, upstream calls and the handler frame\<close>

text \<open>
  \<open>URLs\<close> of \<open>config/constants.js\<close>, which is not among the sources: the three base
  URLs are parameters.  \<open>image_base\<close> is the source's \<open>URLs.image\<close>.
\<close>

record URLs =
  tmdb :: string
  image_base :: string
  jikan :: string

text \<open>
  One outbound call: \<open>axios.get(url, options)\<close> carries \<open>True\<close>, \<open>axios.get(url)\<close>
  carries \<open>False\<close>.  The upstream world answers a call with the body of its reply
  (\<open>.data\<close> of the resolved value) or with the failure the promise rejects with.
\<close>

datatype call = AxiosGet string bool

type_synonym upstream = "call \<Rightarrow> js_error + jsval"

text \<open>
  The body of a \<open>try\<close> block: it may throw, and it records the calls it issues, in
  order.
\<close>

type_synonym 'a io = "call list \<Rightarrow> (js_error + 'a) \<times> call list"

definition axios_get :: "upstream \<Rightarrow> string \<Rightarrow> bool \<Rightarrow> jsval io" where
  "axios_get axios url opts = (\<lambda>issued. (axios (AxiosGet url opts), issued @ [AxiosGet url opts]))"

definition pure_step :: "js_error + 'a \<Rightarrow> 'a io" where
  "pure_step r = (\<lambda>issued. (r, issued))"

definition await :: "'a io \<Rightarrow> ('a \<Rightarrow> 'b io) \<Rightarrow> 'b io" where
  "await m f = (\<lambda>issued. case m issued of
                  (Inl e, issued') \<Rightarrow> (Inl e, issued')
                | (Inr x, issued') \<Rightarrow> f x issued')"

text \<open>
  \<open>try { ... } catch (err) { handleError(err, response) }\<close>, run from an empty record
  of calls: the answer written and the calls issued.
\<close>

definition try_catch :: "express_response io \<Rightarrow> express_response \<times> call list" where
  "try_catch m = (case m [] of
                    (Inl err, issued) \<Rightarrow> (handleError err, issued)
                  | (Inr r, issued) \<Rightarrow> (r, issued))"

section \<open>Movie and TV handlers\<close>

subsection \<open>Trending\<close>

text \<open>\<open>request.params.time_window || 'week'\<close>; an absent parameter is \<open>None\<close>.\<close>

definition time_window_of :: "string option \<Rightarrow> string" where
  "time_window_of p = (case p of None \<Rightarrow> ''week'' | Some s \<Rightarrow> if s = [] then ''week'' else s)"

definition allowedValues :: "string list" where
  "allowedValues = [''week'', ''day'']"

definition invalid_time_window :: "string \<Rightarrow> express_response" where
  "invalid_time_window time_window =
     \<lparr>statusCode = 400,
      sent = Json (JObj [(''error'',
        JStr (''Invalid time_window value: '' @ [CHR 0x22] @ time_window @ [CHR 0x22]
              @ ''. Allowed values are: '' @ join '', '' allowedValues))])\<rparr>"

text \<open>\<open>p ? URLs.image + p : null\<close>.\<close>

definition prefixed :: "URLs \<Rightarrow> jsval \<Rightarrow> jsval" where
  "prefixed U p = (if truthy p then str_plus (image_base U) p else JNull)"

text \<open>
  \<open>movie => ({...movie, backdrop_path: ..., poster_path: ...})\<close>, used by both trending
  handlers and by popular TV.  The reads \<open>movie.backdrop_path\<close> and
  \<open>movie.poster_path\<close> throw when the item is \<open>null\<close> or \<open>undefined\<close>.
\<close>

definition with_image_paths :: "URLs \<Rightarrow> jsval \<Rightarrow> js_error + jsval" where
  "with_image_paths U movie =
     and_then (get_prop movie ''backdrop_path'') (\<lambda>backdrop.
     and_then (get_prop movie ''poster_path'') (\<lambda>poster.
       Inr (JObj (AList.update ''poster_path'' (prefixed U poster)
                   (AList.update ''backdrop_path'' (prefixed U backdrop) (own_props movie))))))"

definition trending_url :: "URLs \<Rightarrow> string \<Rightarrow> string \<Rightarrow> string" where
  "trending_url U kind time_window =
     tmdb U @ ''/trending/'' @ kind @ ''/'' @ time_window @ ''?language=en-US''"

text \<open>
  The two trending handlers differ in the path segment only (\<open>movie\<close>, \<open>tv\<close>).
\<close>

definition trending :: "string \<Rightarrow> URLs \<Rightarrow> upstream \<Rightarrow> string option \<Rightarrow> express_response \<times> call list" where
  "trending kind U axios p =
     (let time_window = time_window_of p
      in if time_window \<notin> set allowedValues then (invalid_time_window time_window, [])
         else try_catch
           (await (axios_get axios (trending_url U kind time_window) True) (\<lambda>d.
            pure_step
              (and_then (get_prop d ''results'') (\<lambda>trendingData.
               and_then (js_map (with_image_paths U) trendingData) (\<lambda>modified.
               Inr (send modified)))))))"

definition trending_movies :: "URLs \<Rightarrow> upstream \<Rightarrow> string option \<Rightarrow> express_response \<times> call list" where
  "trending_movies = trending ''movie''"

definition trending_tv :: "URLs \<Rightarrow> upstream \<Rightarrow> string option \<Rightarrow> express_response \<times> call list" where
  "trending_tv = trending ''tv''"

subsection \<open>Popular, upcoming and search\<close>

text \<open>
  The nine-field projections.  Each reads only the item itself, so it throws exactly
  when the item is \<open>null\<close> or \<open>undefined\<close>.  The image paths are concatenated
  without a test.
\<close>

definition popular_movie_item :: "URLs \<Rightarrow> jsval \<Rightarrow> js_error + jsval" where
  "popular_movie_item U movie =
     (if nullish movie then Inl TypeError
      else Inr (JObj
        [(''id'', js_prop movie ''id''),
         (''original_language'', js_prop movie ''original_language''),
         (''original_title'', js_prop movie ''original_title''),
         (''title'', js_prop movie ''title''),
         (''overview'', js_prop movie ''overview''),
         (''backdrop_path'', str_plus (image_base U) (js_prop movie ''backdrop_path'')),
         (''poster_path'', str_plus (image_base U) (js_prop movie ''poster_path'')),
         (''release_date'', js_prop movie ''release_date''),
         (''vote_average'', js_prop movie ''vote_average'')]))"



text \<open>
  The common frame of the capped list handlers: one call, then
  \<open>data.results.slice(0, 20).map(item)\<close>, sent as it is.
\<close>

definition capped_list ::
  "upstream \<Rightarrow> string \<Rightarrow> bool \<Rightarrow> string \<Rightarrow> (jsval \<Rightarrow> js_error + jsval) \<Rightarrow> express_response \<times> call list" where
  "capped_list axios url opts key item =
     try_catch
       (await (axios_get axios url opts) (\<lambda>d.
        pure_step
          (and_then (get_prop d key) (\<lambda>results.
           and_then (js_slice 20 results) (\<lambda>first.
           and_then (js_map item first) (\<lambda>arr.
           Inr (send arr)))))))"

definition popular_movies :: "URLs \<Rightarrow> upstream \<Rightarrow> express_response \<times> call list" where
  "popular_movies U axios =
     capped_list axios (tmdb U @ ''/movie/popular?language=en-US&page=1'') True ''results''
       (popular_movie_item U)"









subsection \<open>Images\<close>

definition image_item :: "URLs \<Rightarrow> jsval \<Rightarrow> js_error + jsval" where
  "image_item U img =
     (if nullish img then Inl TypeError
      else Inr (JObj
        [(''aspect_ratio'', js_prop img ''aspect_ratio''),
         (''height'', js_prop img ''height''),
         (''width'', js_prop img ''width''),
         (''file_path'', str_plus (image_base U) (js_prop img ''file_path''))]))"

text \<open>
  \<open>data.key?.slice(0, 30).map(item) || []\<close>: a \<open>null\<close> or \<open>undefined\<close> array
  short-cuts the chain to \<open>undefined\<close>, which \<open>||\<close> replaces by the empty array.
\<close>

definition image_list :: "URLs \<Rightarrow> jsval \<Rightarrow> string \<Rightarrow> js_error + jsval" where
  "image_list U d key =
     and_then (get_prop d key) (\<lambda>v.
     and_then (if nullish v then Inr JUndefined
               else and_then (js_slice 30 v) (js_map (image_item U))) (\<lambda>r.
     Inr (js_or r (JArr []))))"

definition images :: "string \<Rightarrow> URLs \<Rightarrow> upstream \<Rightarrow> string \<Rightarrow> express_response \<times> call list" where
  "images kind U axios ident =
     try_catch
       (await (axios_get axios (tmdb U @ ''/'' @ kind @ ''/'' @ ident @ ''/images'') True) (\<lambda>d.
        pure_step
          (and_then (image_list U d ''backdrops'') (\<lambda>backdropsArray.
           and_then (image_list U d ''posters'') (\<lambda>postersArray.
           Inr (send (JObj [(''backdrops'', backdropsArray), (''posters'', postersArray)])))))))"

definition images_movie :: "URLs \<Rightarrow> upstream \<Rightarrow> string \<Rightarrow> express_response \<times> call list" where
  "images_movie = images ''movie''"

definition images_tv :: "URLs \<Rightarrow> upstream \<Rightarrow> string \<Rightarrow> express_response \<times> call list" where
  "images_tv = images ''tv''"

subsection \<open>Popular TV\<close>

text \<open>
  \<open>const { page = 1 } = request.query\<close>: the default applies when the parameter is
  \<open>undefined\<close>, that is absent.  The page is compared as it came, and written into the
  URL by \<open>ToString\<close>.
\<close>

definition page_of :: "jsval \<Rightarrow> jsval" where
  "page_of q = (if q = JUndefined then JNum 1 else q)"

definition page_not_found :: "jsval \<Rightarrow> jsval \<Rightarrow> express_response" where
  "page_not_found page popularData =
     \<lparr>statusCode = 404,
      sent = Json (JObj
        [(''pagination'', JObj
           [(''current_page'', page),
            (''last_visible_page'', js_prop popularData ''total_pages''),
            (''has_next_page'', JBool False),
            (''items'', JObj
               [(''total_pages'', js_prop popularData ''total_pages''),
                (''total_results'', js_prop popularData ''total_results'')])]),
         (''results'', JArr []),
         (''message'', JStr ''No results found for the requested page.'')])\<rparr>"

definition popular_tv :: "URLs \<Rightarrow> upstream \<Rightarrow> jsval \<Rightarrow> express_response \<times> call list" where
  "popular_tv U axios q =
     (let page = page_of q
      in try_catch
        (await (axios_get axios (tmdb U @ ''/tv/top_rated?language=en-US&page='' @ to_string page) True)
           (\<lambda>popularData.
         pure_step
           (and_then (get_prop popularData ''total_pages'') (\<lambda>total_pages.
            if js_gt page total_pages then Inr (page_not_found page popularData)
            else
              and_then (get_prop popularData ''results'') (\<lambda>results.
              and_then (js_map (with_image_paths U) results) (\<lambda>modified.
              Inr (send (JObj
                [(''pagination'', JObj
                    [(''current_page'', js_prop popularData ''page''),
                     (''total_pages'', js_prop popularData ''total_pages''),
                     (''total_results'', js_prop popularData ''total_results'')]),
                 (''popular_tv_shows'', modified)])))))))))"

section \<open>Anime handlers\<close>

text \<open>\<open>list.map(x => x.name)\<close>.\<close>

definition names_of :: "jsval \<Rightarrow> js_error + jsval" where
  "names_of list = js_map (\<lambda>x. get_prop x ''name'') list"

text \<open>
  The projection of the trending, popular and upcoming handlers (the same text in all
  three).  The nested reads \<open>anime.images.jpg.image_url\<close>, \<open>anime.trailer.url\<close> and
  the four \<open>.map\<close> calls can throw; \<open>anime.trailer.images?.maximum_image_url || null\<close>
  cannot once \<open>anime.trailer\<close> is there.  The source spells the key
  \<open>backgroud\<close>, on both sides of the colon.
\<close>

definition anime_item :: "jsval \<Rightarrow> js_error + jsval" where
  "anime_item anime =
     and_then (get_prop anime ''images'') (\<lambda>images.
     and_then (get_prop images ''jpg'') (\<lambda>jpg.
     and_then (get_prop jpg ''image_url'') (\<lambda>image_url.
     and_then (get_prop jpg ''large_image_url'') (\<lambda>large_image_url.
     and_then (get_prop anime ''trailer'') (\<lambda>trailer.
     and_then (get_prop trailer ''images'') (\<lambda>trailer_images.
     and_then (names_of (js_prop anime ''genres'')) (\<lambda>genres.
     and_then (names_of (js_prop anime ''themes'')) (\<lambda>themes.
     and_then (names_of (js_prop anime ''demographics'')) (\<lambda>demographics.
     and_then (names_of (js_prop anime ''explicit_genres'')) (\<lambda>explicit_genres.
     Inr (JObj
       [(''mal_id'', js_prop anime ''mal_id''),
        (''mal_url'', js_prop anime ''url''),
        (''images'', JArr
           [image_url,
            large_image_url,
            js_or (if nullish trailer_images then JUndefined
                   else js_prop trailer_images ''maximum_image_url'') JNull]),
        (''trailer'', JObj
           [(''yt_id'', js_prop trailer ''youtube_id''),
            (''yt_url'', js_prop trailer ''url''),
            (''embed_url'', js_prop trailer ''embed_url'')]),
        (''titles'', JObj
           [(''default_title'', js_prop anime ''title''),
            (''japanese_title'', js_prop anime ''title_japanese''),
            (''english_title'', js_prop anime ''title_english'')]),
        (''episodes'', js_prop anime ''episodes''),
        (''rating'', js_prop anime ''rating''),
        (''type'', js_prop anime ''type''),
        (''source'', js_prop anime ''source''),
        (''status'', js_prop anime ''status''),
        (''score'', js_prop anime ''score''),
        (''rank'', js_prop anime ''rank''),
        (''popularity'', js_prop anime ''popularity''),
        (''synopsis'', js_prop anime ''synopsis''),
        (''backgroud'', js_prop anime ''backgroud''),
        (''season'', js_prop anime ''season''),
        (''year'', js_prop anime ''year''),
        (''genres'', genres),
        (''themes'', themes),
        (''demographics'', demographics),
        (''explicit_genres'', explicit_genres)])))))))))))"

definition trending_anime :: "URLs \<Rightarrow> upstream \<Rightarrow> express_response \<times> call list" where
  "trending_anime U axios = capped_list axios (jikan U @ ''/seasons/now'') False ''data'' anime_item"



subsection \<open>Anime by id\<close>

text \<open>
  \<open>image => ({image_url: image.F.image_url, small_image_url: ..., large_image_url: ...})\<close>
  for the format \<open>F\<close> (\<open>jpg\<close>, \<open>webp\<close>).
\<close>

definition picture_urls :: "string \<Rightarrow> jsval \<Rightarrow> js_error + jsval" where
  "picture_urls fmt img =
     and_then (get_prop img fmt) (\<lambda>f.
     and_then (get_prop f ''image_url'') (\<lambda>image_url.
     and_then (get_prop f ''small_image_url'') (\<lambda>small_image_url.
     and_then (get_prop f ''large_image_url'') (\<lambda>large_image_url.
     Inr (JObj
       [(''image_url'', image_url),
        (''small_image_url'', small_image_url),
        (''large_image_url'', large_image_url)])))))"

text \<open>
  The assignment \<open>target.key = v\<close> in a module (strict code): it binds the key of an
  object, and throws on \<open>null\<close>, \<open>undefined\<close> and on a string, number or boolean.
  On an array it adds a named property, which is no element: the array that is sent is
  the same.
\<close>

fun set_prop :: "jsval \<Rightarrow> string \<Rightarrow> jsval \<Rightarrow> js_error + jsval" where
  "set_prop (JObj fs) k v = Inr (JObj (AList.update k v fs))"
| "set_prop (JArr xs) k v = Inr (JArr xs)"
| "set_prop target k v = Inl TypeError"

definition anime_url :: "URLs \<Rightarrow> string \<Rightarrow> string" where
  "anime_url U animeId = jikan U @ ''/anime/'' @ animeId"

definition search_anime_by_id :: "URLs \<Rightarrow> upstream \<Rightarrow> string \<Rightarrow> express_response \<times> call list" where
  "search_anime_by_id U axios animeId =
     try_catch
       (await (axios_get axios (anime_url U animeId) False) (\<lambda>searchAnimeData.
        await (axios_get axios (anime_url U animeId @ ''/pictures'') False) (\<lambda>searchImages.
        await (axios_get axios (anime_url U animeId @ ''/videos'') False) (\<lambda>searchVideos.
        pure_step
          (and_then (get_prop searchImages ''data'') (\<lambda>imagesData.
           and_then (get_prop searchVideos ''data'') (\<lambda>videosData.
           and_then (js_map (picture_urls ''jpg'') imagesData) (\<lambda>jpgs.
           and_then (js_map (picture_urls ''webp'') imagesData) (\<lambda>webp.
           and_then (set_prop searchAnimeData ''images_data''
                       (JObj [(''jpgs'', jpgs), (''webp'', webp)])) (\<lambda>d1.
           and_then (set_prop d1 ''videos'' videosData) (\<lambda>d2.
           Inr (send d2))))))))))))"

section \<open>Upstream payloads\<close>

text \<open>An upstream that answers every call with the body \<open>d\<close>.\<close>

definition answering :: "jsval \<Rightarrow> upstream" where
  "answering d = (\<lambda>c. Inr d)"

text \<open>The JSON value of a response, \<open>undefined\<close> for a text response.\<close>

definition json_of :: "express_response \<Rightarrow> jsval" where
  "json_of r = (case sent r of Json v \<Rightarrow> v | Text s \<Rightarrow> JUndefined)"



subsection \<open>Sample inputs\<close>

definition sample_urls :: URLs where
  "sample_urls = \<lparr>tmdb = ''https://tmdb.example/3'', image_base = ''https://img.example/w500'',
                   jikan = ''https://jikan.example/v4''\<rparr>"

definition sample_anime :: jsval where
  "sample_anime = JObj
     [(''mal_id'', JNum 52991),
      (''url'', JStr ''https://myanimelist.example/anime/52991''),
      (''images'', JObj [(''jpg'', JObj
         [(''image_url'', JStr ''https://cdn.example/a.jpg''),
          (''large_image_url'', JStr ''https://cdn.example/al.jpg'')])]),
      (''trailer'', JObj
         [(''youtube_id'', JNull), (''url'', JNull), (''embed_url'', JNull),
          (''images'', JObj [(''maximum_image_url'', JNull)])]),
      (''title'', JStr ''Sousou no Frieren''),
      (''episodes'', JNum 28),
      (''synopsis'', JStr ''An elf mage outlives her party.''),
      (''background'', JStr ''Adapted from the manga.''),
      (''season'', JStr ''fall''),
      (''year'', JNum 2023),
      (''genres'', JArr [JObj [(''mal_id'', JNum 2), (''name'', JStr ''Adventure'')]]),
      (''themes'', JArr []),
      (''demographics'', JArr [JObj [(''mal_id'', JNum 27), (''name'', JStr ''Shounen'')]]),
      (''explicit_genres'', JArr [])]"


definition sample_trending :: jsval where
  "sample_trending = JObj [(''results'', JArr
     [JObj [(''id'', JNum 603), (''title'', JStr ''The Matrix''),
            (''backdrop_path'', JNull), (''poster_path'', JStr ''/p603.jpg'')],
      JObj [(''id'', JNum 604), (''title'', JStr ''The Matrix Reloaded''),
            (''backdrop_path'', JStr ''/b604.jpg''), (''poster_path'', JStr ''/p604.jpg'')]])]"

definition sample_images :: jsval where
  "sample_images = JObj
     [(''id'', JNum 209867),
      (''backdrops'', JArr
         [JObj [(''aspect_ratio'', JNum (16 / 9)), (''height'', JNum 1080), (''width'', JNum 1920),
                (''file_path'', JStr ''/b1.jpg''), (''iso_639_1'', JNull), (''vote_count'', JNum 4)]])]"

definition sample_null_backdrop :: jsval where
  "sample_null_backdrop = JObj [(''results'', JArr
     [JObj [(''id'', JNum 603), (''title'', JStr ''The Matrix''), (''backdrop_path'', JNull),
            (''poster_path'', JStr ''/p603.jpg'')]])]"


definition sample_pictures :: jsval where
  "sample_pictures = JObj [(''data'', JArr
     [JObj [(''jpg'', JObj [(''image_url'', JStr ''https://cdn.example/1.jpg''),
                            (''small_image_url'', JStr ''https://cdn.example/1t.jpg''),
                            (''large_image_url'', JStr ''https://cdn.example/1l.jpg'')]),
            (''webp'', JObj [(''image_url'', JStr ''https://cdn.example/1.webp''),
                             (''small_image_url'', JStr ''https://cdn.example/1t.webp''),
                             (''large_image_url'', JStr ''https://cdn.example/1l.webp'')])]])]"

definition sample_videos :: jsval where
  "sample_videos = JObj [(''data'', JObj [(''promo'', JArr []), (''episodes'', JArr [])])]"

definition not_found :: js_error where
  "not_found = \<lparr>response = Some \<lparr>status = 404, data = JObj [(''status'', JNum 404)]\<rparr>,
                 request = True\<rparr>"

definition sample_jikan :: upstream where
  "sample_jikan c =
     (if c = AxiosGet ''https://jikan.example/v4/anime/52991'' False
        then Inr (JObj [(''data'', sample_anime)])
      else if c = AxiosGet ''https://jikan.example/v4/anime/52991/pictures'' False
        then Inr sample_pictures
      else if c = AxiosGet ''https://jikan.example/v4/anime/52991/videos'' False
        then Inr sample_videos
      else if c = AxiosGet ''https://jikan.example/v4/anime/7'' False
        then Inr (JObj [(''data'', sample_anime)])
      else if c = AxiosGet ''https://jikan.example/v4/anime/8'' False
        then Inr (JObj [(''data'', sample_anime)])
      else if c = AxiosGet ''https://jikan.example/v4/anime/8/pictures'' False
        then Inr sample_pictures
      else Inl not_found)"

section \<open>Basic facts\<close>

lemma json_of_send [simp]: "json_of (send v) = v"
  by (simp add: json_of_def send_def)

lemma try_catch_one_call:
  "try_catch (await (axios_get axios url opts) (\<lambda>d. pure_step (g d))) =
     ((case axios (AxiosGet url opts) of
         Inl e \<Rightarrow> handleError e
       | Inr d \<Rightarrow> (case g d of Inl e \<Rightarrow> handleError e | Inr r \<Rightarrow> r)),
      [AxiosGet url opts])"
  by (simp add: try_catch_def await_def axios_get_def pure_step_def split: sum.split)

lemma and_then_Inr [simp]: "and_then (Inr x) f = f x"
  by (simp add: and_then_def)

lemma and_then_Inl [simp]: "and_then (Inl e) f = Inl e"
  by (simp add: and_then_def)

lemma get_prop_Inr [simp]: "\<not> nullish v \<Longrightarrow> get_prop v k = Inr (js_prop v k)"
  by (simp add: get_prop_def)

lemma get_prop_Inl [simp]: "nullish v \<Longrightarrow> get_prop v k = Inl TypeError"
  by (simp add: get_prop_def)

lemma js_prop_nullish [simp]: "nullish v \<Longrightarrow> js_prop v k = JUndefined"
  by (cases v) simp_all

lemma not_nullish_JArr: "js_prop d k = JArr xs \<Longrightarrow> \<not> nullish d"
  by (cases d) auto

lemma map_throwing_total:
  "(\<And>x. x \<in> set xs \<Longrightarrow> \<exists>y. f x = Inr y) \<Longrightarrow>
     \<exists>ys. map_throwing f xs = Inr ys \<and> length ys = length xs
          \<and> (\<forall>i<length xs. f (xs ! i) = Inr (ys ! i))"
proof (induction xs)
  case Nil
  then show ?case by simp
next
  case (Cons x xs)
  from Cons.prems obtain y where y: "f x = Inr y" by auto
  from Cons obtain ys where ys: "map_throwing f xs = Inr ys" "length ys = length xs"
    "\<forall>i<length xs. f (xs ! i) = Inr (ys ! i)" by auto
  have "\<forall>i<length (x # xs). f ((x # xs) ! i) = Inr ((y # ys) ! i)"
    using y ys(3) by (auto simp: nth_Cons split: nat.split)
  then show ?case using y ys by simp
qed





lemma map_throwing_all:
  "(\<And>x. x \<in> set xs \<Longrightarrow> f x = Inr (g x)) \<Longrightarrow> map_throwing f xs = Inr (map g xs)"
  by (induction xs) simp_all


lemma image_list_present:
  assumes "js_prop d key = JArr xs" and "\<forall>x\<in>set xs. \<not> nullish x"
  shows "image_list U d key = Inr (JArr (map (\<lambda>x. JObj
        [(''aspect_ratio'', js_prop x ''aspect_ratio''),
         (''height'', js_prop x ''height''),
         (''width'', js_prop x ''width''),
         (''file_path'', JStr (image_base U @ to_string (js_prop x ''file_path'')))]) (take 30 xs)))"
proof -
  have "map_throwing (image_item U) (take 30 xs) = Inr (map (\<lambda>x. JObj
        [(''aspect_ratio'', js_prop x ''aspect_ratio''),
         (''height'', js_prop x ''height''),
         (''width'', js_prop x ''width''),
         (''file_path'', JStr (image_base U @ to_string (js_prop x ''file_path'')))]) (take 30 xs))"
    using assms(2) by (intro map_throwing_all) (auto simp: image_item_def str_plus_def dest: in_set_takeD)
  then show ?thesis
    using assms(1) not_nullish_JArr [OF assms(1)] by (simp add: image_list_def js_or_def)
qed

lemma image_list_missing:
  "\<not> nullish d \<Longrightarrow> nullish (js_prop d key) \<Longrightarrow> image_list U d key = Inr (JArr [])"
  by (simp add: image_list_def js_or_def)



lemma join_allowedValues: "join '', '' allowedValues = ''week, day''"
  by (simp add: allowedValues_def)

lemma trending_calls:
  "time_window_of p \<in> set allowedValues \<Longrightarrow>
     snd (trending kind U axios p) = [AxiosGet (trending_url U kind (time_window_of p)) True]"
  by (simp add: trending_def try_catch_one_call Let_def)

lemma trending_rejects:
  "time_window_of p \<notin> set allowedValues \<Longrightarrow>
     trending kind U axios p = (invalid_time_window (time_window_of p), [])"
  by (simp add: trending_def)

section \<open>The error classifier\<close>

text \<open>
  C3.  \<open>handleError\<close> has three branches, tried in order: a failure that carries an
  upstream reply is answered with that reply's status and the text
  "Error fetching data from API."; otherwise a failure whose request was sent is answered
  500 with "No response received from API."; otherwise the answer is 500 with
  "Internal Server Error.".  The body is one of these three literals and does not depend on
  the upstream reply's payload: replacing the payload leaves the whole answer unchanged.
\<close>

theorem handleError_three_branches:
  "handleError \<lparr>response = Some \<lparr>status = st, data = d\<rparr>, request = rq\<rparr>
     = \<lparr>statusCode = st, sent = Text ''Error fetching data from API.''\<rparr>
   \<and> handleError \<lparr>response = None, request = True\<rparr>
     = \<lparr>statusCode = 500, sent = Text ''No response received from API.''\<rparr>
   \<and> handleError \<lparr>response = None, request = False\<rparr>
     = \<lparr>statusCode = 500, sent = Text ''Internal Server Error.''\<rparr>
   \<and> sent (handleError err) \<in> {Text ''Error fetching data from API.'',
        Text ''No response received from API.'', Text ''Internal Server Error.''}
   \<and> handleError \<lparr>response = Some \<lparr>status = st, data = d\<rparr>, request = rq\<rparr>
     = handleError \<lparr>response = Some \<lparr>status = st, data = d'\<rparr>, request = rq\<rparr>"
  by (simp add: handleError_def split: option.split)

section \<open>Validation of the time window\<close>

text \<open>
  C5.  In the trending-movies and trending-TV handlers an absent \<open>time_window\<close> is
  \<open>week\<close>.  For \<open>week\<close> and for \<open>day\<close> the handler issues exactly one call,
  to the trending URL of that window (whatever the upstream then answers).  For any other
  value it issues no call and answers 400 with the JSON body
  \<open>{error: 'Invalid time_window value: "<value>". Allowed values are: week, day'}\<close>.
  (A path parameter that is present is never the empty string.)
\<close>

theorem trending_time_window:
  "time_window_of None = ''week''
   \<and> (tw \<in> {''week'', ''day''} \<longrightarrow>
        snd (trending_movies U axios (Some tw))
          = [AxiosGet (tmdb U @ ''/trending/movie/'' @ tw @ ''?language=en-US'') True]
      \<and> snd (trending_tv U axios (Some tw))
          = [AxiosGet (tmdb U @ ''/trending/tv/'' @ tw @ ''?language=en-US'') True])
   \<and> snd (trending_movies U axios None)
        = [AxiosGet (tmdb U @ ''/trending/movie/week?language=en-US'') True]
   \<and> snd (trending_tv U axios None)
        = [AxiosGet (tmdb U @ ''/trending/tv/week?language=en-US'') True]
   \<and> (tw \<notin> {''week'', ''day''} \<and> tw \<noteq> [] \<longrightarrow>
        trending_movies U axios (Some tw)
          = (\<lparr>statusCode = 400,
              sent = Json (JObj [(''error'',
                JStr (''Invalid time_window value: '' @ [CHR 0x22] @ tw @ [CHR 0x22]
                      @ ''. Allowed values are: week, day''))])\<rparr>, [])
      \<and> trending_tv U axios (Some tw)
          = (\<lparr>statusCode = 400,
              sent = Json (JObj [(''error'',
                JStr (''Invalid time_window value: '' @ [CHR 0x22] @ tw @ [CHR 0x22]
                      @ ''. Allowed values are: week, day''))])\<rparr>, []))"
proof -
  have w: "time_window_of None = ''week''"
    by (simp add: time_window_of_def)
  have some: "tw \<noteq> [] \<Longrightarrow> time_window_of (Some tw) = tw"
    by (simp add: time_window_of_def)
  have valid: "tw \<in> {''week'', ''day''} \<Longrightarrow> time_window_of (Some tw) = tw \<and> tw \<in> set allowedValues"
    by (auto simp: time_window_of_def allowedValues_def)
  have a: "tw \<in> {''week'', ''day''} \<Longrightarrow>
        snd (trending kind U axios (Some tw))
          = [AxiosGet (tmdb U @ ''/trending/'' @ kind @ ''/'' @ tw @ ''?language=en-US'') True]" for kind
    using trending_calls [of "Some tw" kind U axios] valid by (simp add: trending_url_def)
  have b: "snd (trending kind U axios None)
          = [AxiosGet (tmdb U @ ''/trending/'' @ kind @ ''/week?language=en-US'') True]" for kind
    using trending_calls [of None kind U axios] w by (simp add: trending_url_def allowedValues_def)
  have c: "tw \<notin> {''week'', ''day''} \<Longrightarrow> tw \<noteq> [] \<Longrightarrow>
        trending kind U axios (Some tw)
          = (\<lparr>statusCode = 400,
              sent = Json (JObj [(''error'',
                JStr (''Invalid time_window value: '' @ [CHR 0x22] @ tw @ [CHR 0x22]
                      @ ''. Allowed values are: week, day''))])\<rparr>, [])" for kind
    using trending_rejects [of "Some tw" kind U axios] some
    by (simp add: invalid_time_window_def join_allowedValues allowedValues_def)
  show ?thesis
    using w a [of "''movie''"] a [of "''tv''"] b [of "''movie''"] b [of "''tv''"]
      c [of "''movie''"] c [of "''tv''"]
    by (simp add: trending_movies_def trending_tv_def)
qed

theorem trending_time_window_witness:
  "''day'' \<in> {''week'', ''day''}
   \<and> snd (trending_movies sample_urls (\<lambda>c. Inr JNull) (Some ''day''))
       = [AxiosGet ''https://tmdb.example/3/trending/movie/day?language=en-US'' True]
   \<and> ''month'' \<notin> {''week'', ''day''}
   \<and> trending_tv sample_urls (\<lambda>c. Inr JNull) (Some ''month'')
       = (\<lparr>statusCode = 400,
              sent = Json (JObj [(''error'',
                JStr (''Invalid time_window value: '' @ [CHR 0x22] @ ''month'' @ [CHR 0x22]
                      @ ''. Allowed values are: week, day''))])\<rparr>, [])"
  using trending_time_window [of "''day''" sample_urls "\<lambda>c. Inr JNull"]
    trending_time_window [of "''month''" sample_urls "\<lambda>c. Inr JNull"]
  by (simp add: sample_urls_def)


section \<open>Caps on the lists\<close>




section \<open>Trending lists pass the items through\<close>

lemma js_prop_JObj_update:
  "js_prop (JObj (AList.update k v fs)) k' = (if k' = k then v else js_prop (JObj fs) k')"
  by (simp add: update_conv')

lemma with_image_paths_object:
  "with_image_paths U (JObj fs) =
     Inr (JObj (AList.update ''poster_path'' (prefixed U (js_prop (JObj fs) ''poster_path''))
            (AList.update ''backdrop_path'' (prefixed U (js_prop (JObj fs) ''backdrop_path'')) fs)))"
  by (simp add: with_image_paths_def)

lemma with_image_paths_fields:
  assumes "with_image_paths U (JObj fs) = Inr y"
  shows "js_prop y k =
           (if k = ''poster_path'' \<or> k = ''backdrop_path''
            then prefixed U (js_prop (JObj fs) k) else js_prop (JObj fs) k)"
proof -
  have "y = JObj (AList.update ''poster_path'' (prefixed U (js_prop (JObj fs) ''poster_path''))
            (AList.update ''backdrop_path'' (prefixed U (js_prop (JObj fs) ''backdrop_path'')) fs))"
    using assms by (simp add: with_image_paths_object)
  then show ?thesis
    by (simp only: js_prop_JObj_update) simp
qed

lemma trending_sends:
  assumes p: "p = None \<or> p = Some ''week'' \<or> p = Some ''day''"
    and d: "js_prop d ''results'' = JArr xs"
    and ys: "map_throwing (with_image_paths U) xs = Inr ys"
  shows "fst (trending kind U (answering d) p) = send (JArr ys)"
proof -
  have "time_window_of p \<in> set allowedValues"
    using p by (auto simp: time_window_of_def allowedValues_def)
  then show ?thesis
    using d ys not_nullish_JArr [OF d]
    by (simp add: trending_def try_catch_one_call answering_def Let_def)
qed

text \<open>
  C8.  With a valid (or absent) time window, and an upstream list of JSON objects, the
  trending-movies and trending-TV handlers send a list of the same length, item by item
  in the same order.  In each item every field other than \<open>backdrop_path\<close> and
  \<open>poster_path\<close> has the value it has upstream (a field absent upstream is absent),
  and each of the two image paths is the image base followed by the upstream path when
  that path is truthy, \<open>null\<close> otherwise.
\<close>

theorem trending_passes_items_through:
  assumes "p = None \<or> p = Some ''week'' \<or> p = Some ''day''"
    and "js_prop d ''results'' = JArr xs"
    and "\<forall>x\<in>set xs. \<exists>fs. x = JObj fs"
  shows "\<exists>ys. fst (trending_movies U (answering d) p) = send (JArr ys)
            \<and> fst (trending_tv U (answering d) p) = send (JArr ys)
            \<and> length ys = length xs
            \<and> (\<forall>i<length xs.
                 (\<forall>k. k \<noteq> ''backdrop_path'' \<and> k \<noteq> ''poster_path''
                      \<longrightarrow> js_prop (ys ! i) k = js_prop (xs ! i) k)
               \<and> js_prop (ys ! i) ''backdrop_path''
                   = (if truthy (js_prop (xs ! i) ''backdrop_path'')
                      then JStr (image_base U @ to_string (js_prop (xs ! i) ''backdrop_path''))
                      else JNull)
               \<and> js_prop (ys ! i) ''poster_path''
                   = (if truthy (js_prop (xs ! i) ''poster_path'')
                      then JStr (image_base U @ to_string (js_prop (xs ! i) ''poster_path''))
                      else JNull))"
proof -
  have "\<And>x. x \<in> set xs \<Longrightarrow> \<exists>y. with_image_paths U x = Inr y"
    using assms(3) by (auto simp: with_image_paths_object)
  from map_throwing_total [of xs "with_image_paths U", OF this]
  obtain ys where ys: "map_throwing (with_image_paths U) xs = Inr ys" "length ys = length xs"
    "\<forall>i<length xs. with_image_paths U (xs ! i) = Inr (ys ! i)" by blast
  have item: "js_prop (ys ! i) k =
           (if k = ''poster_path'' \<or> k = ''backdrop_path''
            then prefixed U (js_prop (xs ! i) k) else js_prop (xs ! i) k)" if "i < length xs" for i k
  proof -
    from that assms(3) obtain fs where fs: "xs ! i = JObj fs" by (meson nth_mem)
    from ys(3) that fs have "with_image_paths U (JObj fs) = Inr (ys ! i)" by auto
    from with_image_paths_fields [OF this] fs show ?thesis by simp
  qed
  have 1: "fst (trending_movies U (answering d) p) = send (JArr ys)"
    unfolding trending_movies_def by (rule trending_sends [OF assms(1,2) ys(1)])
  have 2: "fst (trending_tv U (answering d) p) = send (JArr ys)"
    unfolding trending_tv_def by (rule trending_sends [OF assms(1,2) ys(1)])
  have 3: "\<forall>i<length xs.
                 (\<forall>k. k \<noteq> ''backdrop_path'' \<and> k \<noteq> ''poster_path''
                      \<longrightarrow> js_prop (ys ! i) k = js_prop (xs ! i) k)
               \<and> js_prop (ys ! i) ''backdrop_path''
                   = (if truthy (js_prop (xs ! i) ''backdrop_path'')
                      then JStr (image_base U @ to_string (js_prop (xs ! i) ''backdrop_path''))
                      else JNull)
               \<and> js_prop (ys ! i) ''poster_path''
                   = (if truthy (js_prop (xs ! i) ''poster_path'')
                      then JStr (image_base U @ to_string (js_prop (xs ! i) ''poster_path''))
                      else JNull)"
    using item by (simp add: prefixed_def str_plus_def)
  from 1 2 3 ys(2) show ?thesis by blast
qed

theorem trending_passes_items_through_witness:
  "\<exists>ys. fst (trending_movies sample_urls (answering sample_trending) (Some ''day'')) = send (JArr ys)
       \<and> length ys = 2
       \<and> js_prop (ys ! 0) ''title'' = JStr ''The Matrix''
       \<and> js_prop (ys ! 0) ''backdrop_path'' = JNull
       \<and> js_prop (ys ! 1) ''id'' = JNum 604
       \<and> js_prop (ys ! 1) ''backdrop_path'' = JStr ''https://img.example/w500/b604.jpg''"
proof -
  let ?xs = "[JObj [(''id'', JNum 603), (''title'', JStr ''The Matrix''),
            (''backdrop_path'', JNull), (''poster_path'', JStr ''/p603.jpg'')],
      JObj [(''id'', JNum 604), (''title'', JStr ''The Matrix Reloaded''),
            (''backdrop_path'', JStr ''/b604.jpg''), (''poster_path'', JStr ''/p604.jpg'')]]"
  have "\<exists>ys. fst (trending_movies sample_urls (answering sample_trending) (Some ''day'')) = send (JArr ys)
            \<and> fst (trending_tv sample_urls (answering sample_trending) (Some ''day'')) = send (JArr ys)
            \<and> length ys = length ?xs
            \<and> (\<forall>i<length ?xs.
                 (\<forall>k. k \<noteq> ''backdrop_path'' \<and> k \<noteq> ''poster_path''
                      \<longrightarrow> js_prop (ys ! i) k = js_prop (?xs ! i) k)
               \<and> js_prop (ys ! i) ''backdrop_path''
                   = (if truthy (js_prop (?xs ! i) ''backdrop_path'')
                      then JStr (image_base sample_urls @ to_string (js_prop (?xs ! i) ''backdrop_path''))
                      else JNull)
               \<and> js_prop (ys ! i) ''poster_path''
                   = (if truthy (js_prop (?xs ! i) ''poster_path'')
                      then JStr (image_base sample_urls @ to_string (js_prop (?xs ! i) ''poster_path''))
                      else JNull))"
    by (rule trending_passes_items_through) (simp_all add: sample_trending_def)
  then obtain ys where ys:
    "fst (trending_movies sample_urls (answering sample_trending) (Some ''day'')) = send (JArr ys)"
    "length ys = length ?xs"
    "\<forall>i<length ?xs.
                 (\<forall>k. k \<noteq> ''backdrop_path'' \<and> k \<noteq> ''poster_path''
                      \<longrightarrow> js_prop (ys ! i) k = js_prop (?xs ! i) k)
               \<and> js_prop (ys ! i) ''backdrop_path''
                   = (if truthy (js_prop (?xs ! i) ''backdrop_path'')
                      then JStr (image_base sample_urls @ to_string (js_prop (?xs ! i) ''backdrop_path''))
                      else JNull)
               \<and> js_prop (ys ! i) ''poster_path''
                   = (if truthy (js_prop (?xs ! i) ''poster_path'')
                      then JStr (image_base sample_urls @ to_string (js_prop (?xs ! i) ''poster_path''))
                      else JNull)"
    by blast
  from ys(3) have i0: "js_prop (ys ! 0) ''title'' = JStr ''The Matrix''"
      "js_prop (ys ! 0) ''backdrop_path'' = JNull"
    by simp_all
  from ys(3) have "(\<forall>k. k \<noteq> ''backdrop_path'' \<and> k \<noteq> ''poster_path''
                      \<longrightarrow> js_prop (ys ! 1) k = js_prop (?xs ! 1) k)
               \<and> js_prop (ys ! 1) ''backdrop_path''
                   = (if truthy (js_prop (?xs ! 1) ''backdrop_path'')
                      then JStr (image_base sample_urls @ to_string (js_prop (?xs ! 1) ''backdrop_path''))
                      else JNull)"
    by simp
  then have i1: "js_prop (ys ! 1) ''id'' = JNum 604"
      "js_prop (ys ! 1) ''backdrop_path'' = JStr ''https://img.example/w500/b604.jpg''"
    by (simp_all add: sample_urls_def)
  from ys(1,2) i0 i1 show ?thesis by (intro exI [of _ ys]) simp
qed

section \<open>Image lists\<close>

lemma image_list_cases:
  assumes "\<not> nullish d"
    and "nullish (js_prop d key) \<and> xs = [] \<or> js_prop d key = JArr xs \<and> (\<forall>x\<in>set xs. \<not> nullish x)"
  shows "image_list U d key = Inr (JArr (map (\<lambda>x. JObj
        [(''aspect_ratio'', js_prop x ''aspect_ratio''),
         (''height'', js_prop x ''height''),
         (''width'', js_prop x ''width''),
         (''file_path'', JStr (image_base U @ to_string (js_prop x ''file_path'')))]) (take 30 xs)))"
  using assms image_list_missing [of d key U] image_list_present [of d key xs U] by auto

lemma images_sends:
  assumes "image_list U d ''backdrops'' = Inr b" and "image_list U d ''posters'' = Inr p"
  shows "fst (images kind U (answering d) ident) = send (JObj [(''backdrops'', b), (''posters'', p)])"
  using assms by (simp add: images_def try_catch_one_call answering_def)

text \<open>
  C9.  When the upstream answers the movie-images or TV-images call with an object, the
  response is the object \<open>{backdrops, posters}\<close>.  Each of the two lists holds the first
  30 items at most of the upstream array, each item reduced to \<open>aspect_ratio\<close>,
  \<open>height\<close>, \<open>width\<close> and \<open>file_path\<close>, the last with the image base in front.
  Where the upstream array is missing (or \<open>null\<close>) the list is the empty list, never
  \<open>null\<close> or \<open>undefined\<close>.
\<close>

theorem images_trimmed_and_capped:
  assumes "\<not> nullish d"
    and "nullish (js_prop d ''backdrops'') \<and> bs = []
         \<or> js_prop d ''backdrops'' = JArr bs \<and> (\<forall>x\<in>set bs. \<not> nullish x)"
    and "nullish (js_prop d ''posters'') \<and> ps = []
         \<or> js_prop d ''posters'' = JArr ps \<and> (\<forall>x\<in>set ps. \<not> nullish x)"
  shows "\<exists>bs' ps'.
           fst (images_movie U (answering d) ident)
             = send (JObj [(''backdrops'', JArr bs'), (''posters'', JArr ps')])
         \<and> fst (images_tv U (answering d) ident)
             = send (JObj [(''backdrops'', JArr bs'), (''posters'', JArr ps')])
         \<and> length bs' = min (length bs) 30 \<and> length ps' = min (length ps) 30
         \<and> (\<forall>i<length bs'. bs' ! i = JObj
               [(''aspect_ratio'', js_prop (bs ! i) ''aspect_ratio''),
                (''height'', js_prop (bs ! i) ''height''),
                (''width'', js_prop (bs ! i) ''width''),
                (''file_path'', JStr (image_base U @ to_string (js_prop (bs ! i) ''file_path'')))])
         \<and> (\<forall>i<length ps'. ps' ! i = JObj
               [(''aspect_ratio'', js_prop (ps ! i) ''aspect_ratio''),
                (''height'', js_prop (ps ! i) ''height''),
                (''width'', js_prop (ps ! i) ''width''),
                (''file_path'', JStr (image_base U @ to_string (js_prop (ps ! i) ''file_path'')))])
         \<and> (nullish (js_prop d ''backdrops'') \<longrightarrow> bs' = [])
         \<and> (nullish (js_prop d ''posters'') \<longrightarrow> ps' = [])"
proof -
  let ?t = "\<lambda>x. JObj
        [(''aspect_ratio'', js_prop x ''aspect_ratio''),
         (''height'', js_prop x ''height''),
         (''width'', js_prop x ''width''),
         (''file_path'', JStr (image_base U @ to_string (js_prop x ''file_path'')))]"
  let ?bs = "map ?t (take 30 bs)" and ?ps = "map ?t (take 30 ps)"
  have b: "image_list U d ''backdrops'' = Inr (JArr ?bs)"
    by (rule image_list_cases [OF assms(1,2)])
  have p: "image_list U d ''posters'' = Inr (JArr ?ps)"
    by (rule image_list_cases [OF assms(1,3)])
  have 1: "fst (images_movie U (answering d) ident)
             = send (JObj [(''backdrops'', JArr ?bs), (''posters'', JArr ?ps)])"
    unfolding images_movie_def by (rule images_sends [OF b p])
  have 2: "fst (images_tv U (answering d) ident)
             = send (JObj [(''backdrops'', JArr ?bs), (''posters'', JArr ?ps)])"
    unfolding images_tv_def by (rule images_sends [OF b p])
  have 3: "length ?bs = min (length bs) 30" "length ?ps = min (length ps) 30" by simp_all
  have 4: "\<forall>i<length ?bs. ?bs ! i = ?t (bs ! i)" "\<forall>i<length ?ps. ?ps ! i = ?t (ps ! i)" by simp_all
  have 5: "nullish (js_prop d ''backdrops'') \<longrightarrow> ?bs = []" using assms(2) by auto
  have 6: "nullish (js_prop d ''posters'') \<longrightarrow> ?ps = []" using assms(3) by auto
  show ?thesis
    apply (rule exI [of _ ?bs])
    apply (rule exI [of _ ?ps])
    apply (intro conjI)
    apply (rule 1)
    apply (rule 2)
    apply (rule 3(1))
    apply (rule 3(2))
    apply (rule 4(1))
    apply (rule 4(2))
    apply (rule 5)
    apply (rule 6)
    done
qed

theorem images_trimmed_and_capped_witness:
  "fst (images_tv sample_urls (answering sample_images) ''209867'')
     = send (JObj
         [(''backdrops'', JArr [JObj
            [(''aspect_ratio'', JNum (16 / 9)), (''height'', JNum 1080), (''width'', JNum 1920),
             (''file_path'', JStr ''https://img.example/w500/b1.jpg'')]]),
          (''posters'', JArr [])])"
proof -
  let ?bs = "[JObj [(''aspect_ratio'', JNum (16 / 9)), (''height'', JNum 1080), (''width'', JNum 1920),
                (''file_path'', JStr ''/b1.jpg''), (''iso_639_1'', JNull), (''vote_count'', JNum 4)]]"
  have "\<exists>bs' ps'.
           fst (images_movie sample_urls (answering sample_images) ''209867'')
             = send (JObj [(''backdrops'', JArr bs'), (''posters'', JArr ps')])
         \<and> fst (images_tv sample_urls (answering sample_images) ''209867'')
             = send (JObj [(''backdrops'', JArr bs'), (''posters'', JArr ps')])
         \<and> length bs' = min (length ?bs) 30 \<and> length ps' = min (length ([]::jsval list)) 30
         \<and> (\<forall>i<length bs'. bs' ! i = JObj
               [(''aspect_ratio'', js_prop (?bs ! i) ''aspect_ratio''),
                (''height'', js_prop (?bs ! i) ''height''),
                (''width'', js_prop (?bs ! i) ''width''),
                (''file_path'', JStr (image_base sample_urls @ to_string (js_prop (?bs ! i) ''file_path'')))])
         \<and> (\<forall>i<length ps'. ps' ! i = JObj
               [(''aspect_ratio'', js_prop ([] ! i) ''aspect_ratio''),
                (''height'', js_prop ([] ! i) ''height''),
                (''width'', js_prop ([] ! i) ''width''),
                (''file_path'', JStr (image_base sample_urls @ to_string (js_prop ([] ! i) ''file_path'')))])
         \<and> (nullish (js_prop sample_images ''backdrops'') \<longrightarrow> bs' = [])
         \<and> (nullish (js_prop sample_images ''posters'') \<longrightarrow> ps' = [])"
    by (rule images_trimmed_and_capped) (simp_all add: sample_images_def)
  then obtain bs' ps' where r:
    "fst (images_tv sample_urls (answering sample_images) ''209867'')
             = send (JObj [(''backdrops'', JArr bs'), (''posters'', JArr ps')])"
    "length bs' = min (length ?bs) 30"
    "\<forall>i<length bs'. bs' ! i = JObj
               [(''aspect_ratio'', js_prop (?bs ! i) ''aspect_ratio''),
                (''height'', js_prop (?bs ! i) ''height''),
                (''width'', js_prop (?bs ! i) ''width''),
                (''file_path'', JStr (image_base sample_urls @ to_string (js_prop (?bs ! i) ''file_path'')))]"
    "nullish (js_prop sample_images ''posters'') \<longrightarrow> ps' = []"
    by blast
  from r(4) have ps: "ps' = []" by (simp add: sample_images_def)
  from r(2) have len: "length bs' = 1" by simp
  with r(3) have "bs' ! 0 = JObj
            [(''aspect_ratio'', JNum (16 / 9)), (''height'', JNum 1080), (''width'', JNum 1920),
             (''file_path'', JStr ''https://img.example/w500/b1.jpg'')]"
    by (simp add: sample_urls_def)
  with len have "bs' = [JObj
            [(''aspect_ratio'', JNum (16 / 9)), (''height'', JNum 1080), (''width'', JNum 1920),
             (''file_path'', JStr ''https://img.example/w500/b1.jpg'')]]"
    by (cases bs') auto
  with r(1) ps show ?thesis by simp
qed

section \<open>Image paths\<close>

text \<open>
  C1.  The claim: every image field that a handler returns is \<open>null\<close> or the image
  base followed by the upstream path, and a \<open>null\<close> or absent path gives \<open>null\<close>.
  The trending handlers and popular TV test the path before they concatenate
  (\<open>prefixed\<close>).  The popular, upcoming and search handlers and the image handlers
  concatenate without the test: for an upstream movie whose \<open>backdrop_path\<close> is
  \<open>null\<close>, popular movies sends the image base followed by the text \<open>null\<close>.
\<close>

theorem popular_movies_null_backdrop:
  "fst (popular_movies U (answering sample_null_backdrop))
     = send (JArr [JObj
         [(''id'', JNum 603),
          (''original_language'', JUndefined),
          (''original_title'', JUndefined),
          (''title'', JStr ''The Matrix''),
          (''overview'', JUndefined),
          (''backdrop_path'', JStr (image_base U @ ''null'')),
          (''poster_path'', JStr (image_base U @ ''/p603.jpg'')),
          (''release_date'', JUndefined),
          (''vote_average'', JUndefined)]])
   \<and> js_prop (JObj [(''id'', JNum 603), (''title'', JStr ''The Matrix''), (''backdrop_path'', JNull),
            (''poster_path'', JStr ''/p603.jpg'')]) ''backdrop_path'' = JNull"
  by (simp add: popular_movies_def capped_list_def try_catch_one_call answering_def
      sample_null_backdrop_def popular_movie_item_def str_plus_def)

text \<open>The tested form, as the trending handlers use it.\<close>

lemma prefixed_null_or_url:
  "prefixed U p = JNull \<or> prefixed U p = JStr (image_base U @ to_string p)"
  "nullish p \<Longrightarrow> prefixed U p = JNull"
  by (cases p; simp add: prefixed_def str_plus_def)+

section \<open>Popular TV and its page check\<close>


lemma popular_tv_calls:
  "snd (popular_tv U axios q)
     = [AxiosGet (tmdb U @ ''/tv/top_rated?language=en-US&page='' @ to_string (page_of q)) True]"
  by (simp add: popular_tv_def try_catch_one_call Let_def)























section \<open>Anime by id\<close>

lemma try_catch_three_calls:
  "try_catch
     (await (axios_get axios u1 o1) (\<lambda>a.
      await (axios_get axios u2 o2) (\<lambda>b.
      await (axios_get axios u3 o3) (\<lambda>c. pure_step (g a b c))))) =
   (case axios (AxiosGet u1 o1) of
      Inl e \<Rightarrow> (handleError e, [AxiosGet u1 o1])
    | Inr a \<Rightarrow>
        (case axios (AxiosGet u2 o2) of
           Inl e \<Rightarrow> (handleError e, [AxiosGet u1 o1, AxiosGet u2 o2])
         | Inr b \<Rightarrow>
             (case axios (AxiosGet u3 o3) of
                Inl e \<Rightarrow> (handleError e, [AxiosGet u1 o1, AxiosGet u2 o2, AxiosGet u3 o3])
              | Inr c \<Rightarrow>
                  ((case g a b c of Inl e \<Rightarrow> handleError e | Inr r \<Rightarrow> r),
                   [AxiosGet u1 o1, AxiosGet u2 o2, AxiosGet u3 o3]))))"
  by (simp add: try_catch_def await_def axios_get_def pure_step_def split: sum.split)

lemma picture_urls_fmt:
  "\<not> nullish (js_prop p fmt) \<Longrightarrow>
     picture_urls fmt p = Inr (JObj
       [(''image_url'', js_prop (js_prop p fmt) ''image_url''),
        (''small_image_url'', js_prop (js_prop p fmt) ''small_image_url''),
        (''large_image_url'', js_prop (js_prop p fmt) ''large_image_url'')])"
  by (cases "nullish p") (simp_all add: picture_urls_def)

lemma pictures_reshaped:
  assumes "\<forall>p\<in>set ps. \<not> nullish (js_prop p fmt)"
  shows "map_throwing (picture_urls fmt) ps = Inr (map (\<lambda>p. JObj
       [(''image_url'', js_prop (js_prop p fmt) ''image_url''),
        (''small_image_url'', js_prop (js_prop p fmt) ''small_image_url''),
        (''large_image_url'', js_prop (js_prop p fmt) ''large_image_url'')]) ps)"
  using assms by (intro map_throwing_all) (simp add: picture_urls_fmt)

text \<open>
  C7.  The anime-by-id handler calls the detail, pictures and videos URLs of the same id
  one after the other: a call is issued only when the one before it has succeeded, and the
  first failure is the answer.  When all three succeed (the detail body an object, the
  pictures a list of items that have \<open>jpg\<close> and \<open>webp\<close>), the response is the detail
  object with \<open>images_data\<close> set to \<open>{jpgs, webp}\<close>, two lists as long as the
  pictures list that hold the three URLs of each picture in that format, with \<open>videos\<close>
  set to the videos data, and with every other key of the detail body as the upstream
  sent it.
\<close>

theorem search_anime_by_id_merges:
  fixes U :: URLs and axios :: upstream and animeId :: string
  defines "c1 \<equiv> AxiosGet (jikan U @ ''/anime/'' @ animeId) False"
    and "c2 \<equiv> AxiosGet (jikan U @ ''/anime/'' @ animeId @ ''/pictures'') False"
    and "c3 \<equiv> AxiosGet (jikan U @ ''/anime/'' @ animeId @ ''/videos'') False"
  shows "(axios c1 = Inl e \<longrightarrow> search_anime_by_id U axios animeId = (handleError e, [c1]))
       \<and> (axios c1 = Inr a \<and> axios c2 = Inl e \<longrightarrow>
            search_anime_by_id U axios animeId = (handleError e, [c1, c2]))
       \<and> (axios c1 = Inr a \<and> axios c2 = Inr b \<and> axios c3 = Inl e \<longrightarrow>
            search_anime_by_id U axios animeId = (handleError e, [c1, c2, c3]))
       \<and> (axios c1 = Inr (JObj detail) \<and> axios c2 = Inr pictures \<and> axios c3 = Inr videos
          \<and> js_prop pictures ''data'' = JArr ps
          \<and> (\<forall>p\<in>set ps. \<not> nullish (js_prop p ''jpg'') \<and> \<not> nullish (js_prop p ''webp''))
          \<and> \<not> nullish videos \<longrightarrow>
            (\<exists>body jpgs webp.
               search_anime_by_id U axios animeId = (send (JObj body), [c1, c2, c3])
             \<and> map_of body ''images_data'' = Some (JObj [(''jpgs'', JArr jpgs), (''webp'', JArr webp)])
             \<and> length jpgs = length ps \<and> length webp = length ps
             \<and> (\<forall>i<length ps.
                   jpgs ! i = JObj
                     [(''image_url'', js_prop (js_prop (ps ! i) ''jpg'') ''image_url''),
                      (''small_image_url'', js_prop (js_prop (ps ! i) ''jpg'') ''small_image_url''),
                      (''large_image_url'', js_prop (js_prop (ps ! i) ''jpg'') ''large_image_url'')]
                 \<and> webp ! i = JObj
                     [(''image_url'', js_prop (js_prop (ps ! i) ''webp'') ''image_url''),
                      (''small_image_url'', js_prop (js_prop (ps ! i) ''webp'') ''small_image_url''),
                      (''large_image_url'', js_prop (js_prop (ps ! i) ''webp'') ''large_image_url'')])
             \<and> map_of body ''videos'' = Some (js_prop videos ''data'')
             \<and> (\<forall>k. k \<noteq> ''images_data'' \<and> k \<noteq> ''videos'' \<longrightarrow> map_of body k = map_of detail k)))"
proof (intro conjI impI)
  assume "axios c1 = Inl e"
  then show "search_anime_by_id U axios animeId = (handleError e, [c1])"
    by (simp add: search_anime_by_id_def try_catch_three_calls anime_url_def c1_def)
next
  assume "axios c1 = Inr a \<and> axios c2 = Inl e"
  then show "search_anime_by_id U axios animeId = (handleError e, [c1, c2])"
    by (simp add: search_anime_by_id_def try_catch_three_calls anime_url_def c1_def c2_def)
next
  assume "axios c1 = Inr a \<and> axios c2 = Inr b \<and> axios c3 = Inl e"
  then show "search_anime_by_id U axios animeId = (handleError e, [c1, c2, c3])"
    by (simp add: search_anime_by_id_def try_catch_three_calls anime_url_def c1_def c2_def c3_def)
next
  assume h: "axios c1 = Inr (JObj detail) \<and> axios c2 = Inr pictures \<and> axios c3 = Inr videos
          \<and> js_prop pictures ''data'' = JArr ps
          \<and> (\<forall>p\<in>set ps. \<not> nullish (js_prop p ''jpg'') \<and> \<not> nullish (js_prop p ''webp''))
          \<and> \<not> nullish videos"
  let ?t = "\<lambda>fmt p. JObj
       [(''image_url'', js_prop (js_prop p fmt) ''image_url''),
        (''small_image_url'', js_prop (js_prop p fmt) ''small_image_url''),
        (''large_image_url'', js_prop (js_prop p fmt) ''large_image_url'')]"
  let ?jpgs = "map (?t ''jpg'') ps" and ?webp = "map (?t ''webp'') ps"
  let ?body = "AList.update ''videos'' (js_prop videos ''data'')
      (AList.update ''images_data'' (JObj [(''jpgs'', JArr ?jpgs), (''webp'', JArr ?webp)]) detail)"
  have pics: "\<not> nullish pictures" using h not_nullish_JArr by blast
  have j: "map_throwing (picture_urls ''jpg'') ps = Inr ?jpgs"
    using h by (intro pictures_reshaped) simp
  have w: "map_throwing (picture_urls ''webp'') ps = Inr ?webp"
    using h by (intro pictures_reshaped) simp
  have 1: "search_anime_by_id U axios animeId = (send (JObj ?body), [c1, c2, c3])"
    using h pics
    by (simp add: search_anime_by_id_def try_catch_three_calls anime_url_def c1_def c2_def c3_def
        j w)
  have 2: "map_of ?body ''images_data'' = Some (JObj [(''jpgs'', JArr ?jpgs), (''webp'', JArr ?webp)])"
    by (simp add: update_conv')
  have 3: "map_of ?body ''videos'' = Some (js_prop videos ''data'')"
    by (simp add: update_conv')
  have 4: "\<forall>k. k \<noteq> ''images_data'' \<and> k \<noteq> ''videos'' \<longrightarrow> map_of ?body k = map_of detail k"
    by (simp add: update_conv')
  have 5: "length ?jpgs = length ps" "length ?webp = length ps" by simp_all
  have 6: "\<forall>i<length ps. ?jpgs ! i = ?t ''jpg'' (ps ! i) \<and> ?webp ! i = ?t ''webp'' (ps ! i)"
    by simp
  show "\<exists>body jpgs webp.
               search_anime_by_id U axios animeId = (send (JObj body), [c1, c2, c3])
             \<and> map_of body ''images_data'' = Some (JObj [(''jpgs'', JArr jpgs), (''webp'', JArr webp)])
             \<and> length jpgs = length ps \<and> length webp = length ps
             \<and> (\<forall>i<length ps.
                   jpgs ! i = JObj
                     [(''image_url'', js_prop (js_prop (ps ! i) ''jpg'') ''image_url''),
                      (''small_image_url'', js_prop (js_prop (ps ! i) ''jpg'') ''small_image_url''),
                      (''large_image_url'', js_prop (js_prop (ps ! i) ''jpg'') ''large_image_url'')]
                 \<and> webp ! i = JObj
                     [(''image_url'', js_prop (js_prop (ps ! i) ''webp'') ''image_url''),
                      (''small_image_url'', js_prop (js_prop (ps ! i) ''webp'') ''small_image_url''),
                      (''large_image_url'', js_prop (js_prop (ps ! i) ''webp'') ''large_image_url'')])
             \<and> map_of body ''videos'' = Some (js_prop videos ''data'')
             \<and> (\<forall>k. k \<noteq> ''images_data'' \<and> k \<noteq> ''videos'' \<longrightarrow> map_of body k = map_of detail k)"
    apply (rule exI [of _ ?body])
    apply (rule exI [of _ ?jpgs])
    apply (rule exI [of _ ?webp])
    apply (intro conjI)
    apply (rule 1)
    apply (rule 2)
    apply (rule 5(1))
    apply (rule 5(2))
    apply (rule 6)
    apply (rule 3)
    apply (rule 4)
    done
qed

theorem search_anime_by_id_merges_witness:
  "search_anime_by_id sample_urls sample_jikan ''0''
     = (\<lparr>statusCode = 404, sent = Text ''Error fetching data from API.''\<rparr>,
        [AxiosGet ''https://jikan.example/v4/anime/0'' False])
   \<and> snd (search_anime_by_id sample_urls sample_jikan ''7'')
       = [AxiosGet ''https://jikan.example/v4/anime/7'' False,
          AxiosGet ''https://jikan.example/v4/anime/7/pictures'' False]
   \<and> snd (search_anime_by_id sample_urls sample_jikan ''8'')
       = [AxiosGet ''https://jikan.example/v4/anime/8'' False,
          AxiosGet ''https://jikan.example/v4/anime/8/pictures'' False,
          AxiosGet ''https://jikan.example/v4/anime/8/videos'' False]
   \<and> (\<exists>body jpgs webp.
         search_anime_by_id sample_urls sample_jikan ''52991''
           = (send (JObj body),
              [AxiosGet ''https://jikan.example/v4/anime/52991'' False,
               AxiosGet ''https://jikan.example/v4/anime/52991/pictures'' False,
               AxiosGet ''https://jikan.example/v4/anime/52991/videos'' False])
       \<and> map_of body ''data'' = Some sample_anime
       \<and> map_of body ''images_data'' = Some (JObj [(''jpgs'', JArr jpgs), (''webp'', JArr webp)])
       \<and> length jpgs = 1 \<and> length webp = 1
       \<and> jpgs ! 0 = JObj [(''image_url'', JStr ''https://cdn.example/1.jpg''),
                           (''small_image_url'', JStr ''https://cdn.example/1t.jpg''),
                           (''large_image_url'', JStr ''https://cdn.example/1l.jpg'')]
       \<and> map_of body ''videos'' = Some (JObj [(''promo'', JArr []), (''episodes'', JArr [])]))"
proof -
  let ?ps = "[JObj [(''jpg'', JObj [(''image_url'', JStr ''https://cdn.example/1.jpg''),
                            (''small_image_url'', JStr ''https://cdn.example/1t.jpg''),
                            (''large_image_url'', JStr ''https://cdn.example/1l.jpg'')]),
            (''webp'', JObj [(''image_url'', JStr ''https://cdn.example/1.webp''),
                             (''small_image_url'', JStr ''https://cdn.example/1t.webp''),
                             (''large_image_url'', JStr ''https://cdn.example/1l.webp'')])]]"
  have 1: "search_anime_by_id sample_urls sample_jikan ''0''
     = (\<lparr>statusCode = 404, sent = Text ''Error fetching data from API.''\<rparr>,
        [AxiosGet ''https://jikan.example/v4/anime/0'' False])"
    using search_anime_by_id_merges [where U = sample_urls and axios = sample_jikan
        and animeId = "''0''" and e = not_found, THEN conjunct1]
    by (simp add: sample_jikan_def sample_urls_def not_found_def handleError_def)
  have 2: "snd (search_anime_by_id sample_urls sample_jikan ''7'')
       = [AxiosGet ''https://jikan.example/v4/anime/7'' False,
          AxiosGet ''https://jikan.example/v4/anime/7/pictures'' False]"
    using search_anime_by_id_merges [where U = sample_urls and axios = sample_jikan
        and animeId = "''7''" and e = not_found and a = "JObj [(''data'', sample_anime)]",
        THEN conjunct2, THEN conjunct1]
    by (simp add: sample_jikan_def sample_urls_def)
  have 3: "snd (search_anime_by_id sample_urls sample_jikan ''8'')
       = [AxiosGet ''https://jikan.example/v4/anime/8'' False,
          AxiosGet ''https://jikan.example/v4/anime/8/pictures'' False,
          AxiosGet ''https://jikan.example/v4/anime/8/videos'' False]"
    using search_anime_by_id_merges [where U = sample_urls and axios = sample_jikan
        and animeId = "''8''" and e = not_found and a = "JObj [(''data'', sample_anime)]"
        and b = sample_pictures, THEN conjunct2, THEN conjunct2, THEN conjunct1]
    by (simp add: sample_jikan_def sample_urls_def)
  have h: "sample_jikan (AxiosGet (jikan sample_urls @ ''/anime/'' @ ''52991'') False)
             = Inr (JObj [(''data'', sample_anime)])
         \<and> sample_jikan (AxiosGet (jikan sample_urls @ ''/anime/'' @ ''52991'' @ ''/pictures'') False)
             = Inr sample_pictures
         \<and> sample_jikan (AxiosGet (jikan sample_urls @ ''/anime/'' @ ''52991'' @ ''/videos'') False)
             = Inr sample_videos
         \<and> js_prop sample_pictures ''data'' = JArr ?ps
         \<and> (\<forall>p\<in>set ?ps. \<not> nullish (js_prop p ''jpg'') \<and> \<not> nullish (js_prop p ''webp''))
         \<and> \<not> nullish sample_videos"
    by (simp add: sample_jikan_def sample_urls_def sample_pictures_def sample_videos_def)
  have u: "jikan sample_urls @ ''/anime/'' @ ''52991'' = ''https://jikan.example/v4/anime/52991''"
    "jikan sample_urls @ ''/anime/'' @ ''52991'' @ ''/pictures''
       = ''https://jikan.example/v4/anime/52991/pictures''"
    "jikan sample_urls @ ''/anime/'' @ ''52991'' @ ''/videos''
       = ''https://jikan.example/v4/anime/52991/videos''"
    by (simp_all add: sample_urls_def)
  note t = search_anime_by_id_merges [where U = sample_urls and axios = sample_jikan
        and animeId = "''52991''" and detail = "[(''data'', sample_anime)]"
        and pictures = sample_pictures and videos = sample_videos and ps = ?ps,
        THEN conjunct2, THEN conjunct2, THEN conjunct2, THEN mp, OF h, unfolded u]
  from t obtain body jpgs webp where r:
    "search_anime_by_id sample_urls sample_jikan ''52991''
           = (send (JObj body),
              [AxiosGet ''https://jikan.example/v4/anime/52991'' False,
               AxiosGet ''https://jikan.example/v4/anime/52991/pictures'' False,
               AxiosGet ''https://jikan.example/v4/anime/52991/videos'' False])"
    "map_of body ''images_data'' = Some (JObj [(''jpgs'', JArr jpgs), (''webp'', JArr webp)])"
    "length jpgs = length ?ps" "length webp = length ?ps"
    "\<forall>i<length ?ps.
                   jpgs ! i = JObj
                     [(''image_url'', js_prop (js_prop (?ps ! i) ''jpg'') ''image_url''),
                      (''small_image_url'', js_prop (js_prop (?ps ! i) ''jpg'') ''small_image_url''),
                      (''large_image_url'', js_prop (js_prop (?ps ! i) ''jpg'') ''large_image_url'')]
                 \<and> webp ! i = JObj
                     [(''image_url'', js_prop (js_prop (?ps ! i) ''webp'') ''image_url''),
                      (''small_image_url'', js_prop (js_prop (?ps ! i) ''webp'') ''small_image_url''),
                      (''large_image_url'', js_prop (js_prop (?ps ! i) ''webp'') ''large_image_url'')]"
    "map_of body ''videos'' = Some (js_prop sample_videos ''data'')"
    "\<forall>k. k \<noteq> ''images_data'' \<and> k \<noteq> ''videos''
              \<longrightarrow> map_of body k = map_of [(''data'', sample_anime)] k"
    by (elim exE conjE)
  from r(7) have d: "map_of body ''data'' = Some sample_anime" by simp
  from r(5) have j0: "jpgs ! 0 = JObj [(''image_url'', JStr ''https://cdn.example/1.jpg''),
                           (''small_image_url'', JStr ''https://cdn.example/1t.jpg''),
                           (''large_image_url'', JStr ''https://cdn.example/1l.jpg'')]"
    by simp
  from r(6) have v: "map_of body ''videos'' = Some (JObj [(''promo'', JArr []), (''episodes'', JArr [])])"
    by (simp add: sample_videos_def)
  from r(3,4) have l: "length jpgs = 1" "length webp = 1" by simp_all
  have 4: "\<exists>body jpgs webp.
         search_anime_by_id sample_urls sample_jikan ''52991''
           = (send (JObj body),
              [AxiosGet ''https://jikan.example/v4/anime/52991'' False,
               AxiosGet ''https://jikan.example/v4/anime/52991/pictures'' False,
               AxiosGet ''https://jikan.example/v4/anime/52991/videos'' False])
       \<and> map_of body ''data'' = Some sample_anime
       \<and> map_of body ''images_data'' = Some (JObj [(''jpgs'', JArr jpgs), (''webp'', JArr webp)])
       \<and> length jpgs = 1 \<and> length webp = 1
       \<and> jpgs ! 0 = JObj [(''image_url'', JStr ''https://cdn.example/1.jpg''),
                           (''small_image_url'', JStr ''https://cdn.example/1t.jpg''),
                           (''large_image_url'', JStr ''https://cdn.example/1l.jpg'')]
       \<and> map_of body ''videos'' = Some (JObj [(''promo'', JArr []), (''episodes'', JArr [])])"
    apply (rule exI [of _ body])
    apply (rule exI [of _ jpgs])
    apply (rule exI [of _ webp])
    apply (intro conjI)
    apply (rule r(1))
    apply (rule d)
    apply (rule r(2))
    apply (rule l(1))
    apply (rule l(2))
    apply (rule j0)
    apply (rule v)
    done
  from 1 2 3 4 show ?thesis by (intro conjI)
qed

section \<open>Anime projections\<close>

lemma anime_item_sample:
  "anime_item sample_anime = Inr (JObj
       [(''mal_id'', JNum 52991),
        (''mal_url'', JStr ''https://myanimelist.example/anime/52991''),
        (''images'', JArr
           [JStr ''https://cdn.example/a.jpg'', JStr ''https://cdn.example/al.jpg'', JNull]),
        (''trailer'', JObj [(''yt_id'', JNull), (''yt_url'', JNull), (''embed_url'', JNull)]),
        (''titles'', JObj
           [(''default_title'', JStr ''Sousou no Frieren''),
            (''japanese_title'', JUndefined),
            (''english_title'', JUndefined)]),
        (''episodes'', JNum 28),
        (''rating'', JUndefined),
        (''type'', JUndefined),
        (''source'', JUndefined),
        (''status'', JUndefined),
        (''score'', JUndefined),
        (''rank'', JUndefined),
        (''popularity'', JUndefined),
        (''synopsis'', JStr ''An elf mage outlives her party.''),
        (''backgroud'', JUndefined),
        (''season'', JStr ''fall''),
        (''year'', JNum 2023),
        (''genres'', JArr [JStr ''Adventure'']),
        (''themes'', JArr []),
        (''demographics'', JArr [JStr ''Shounen'']),
        (''explicit_genres'', JArr [])])"
  by (simp add: anime_item_def sample_anime_def names_of_def js_or_def)

text \<open>
  C6.  The claim: each item of the trending, popular and upcoming anime lists carries the
  scalar fields of the upstream item, \<open>background\<close> among them.  The projection
  writes the key \<open>backgroud\<close> and reads \<open>anime.backgroud\<close>, which the upstream
  item does not have: for an upstream item whose \<open>background\<close> is a text, the item
  sent has no \<open>background\<close> (and an undefined \<open>backgroud\<close>), while \<open>synopsis\<close>
  and the other scalars are copied.
\<close>

theorem trending_anime_drops_background:
  "js_prop sample_anime ''background'' = JStr ''Adapted from the manga.''
   \<and> (\<exists>item. fst (trending_anime U (answering (JObj [(''data'', JArr [sample_anime])])))
                = send (JArr [item])
            \<and> js_prop item ''background'' = JUndefined
            \<and> js_prop item ''backgroud'' = JUndefined
            \<and> js_prop item ''synopsis'' = js_prop sample_anime ''synopsis'')"
proof -
  obtain item where item: "anime_item sample_anime = Inr item"
    "js_prop item ''background'' = JUndefined" "js_prop item ''backgroud'' = JUndefined"
    "js_prop item ''synopsis'' = JStr ''An elf mage outlives her party.''"
    by (simp add: anime_item_sample)
  have "fst (trending_anime U (answering (JObj [(''data'', JArr [sample_anime])])))
          = (case anime_item sample_anime of Inl e \<Rightarrow> handleError e | Inr y \<Rightarrow> send (JArr [y]))"
    by (simp add: trending_anime_def capped_list_def try_catch_one_call answering_def and_then_def
        split: sum.split)
  then have 1: "fst (trending_anime U (answering (JObj [(''data'', JArr [sample_anime])])))
          = send (JArr [item])"
    by (simp add: item(1))
  have 2: "js_prop sample_anime ''background'' = JStr ''Adapted from the manga.''"
    "js_prop sample_anime ''synopsis'' = JStr ''An elf mage outlives her party.''"
    by (simp_all add: sample_anime_def)
  from 1 2 item(2,3,4) show ?thesis by auto
qed

lemma and_then_eq_Inr: "and_then m f = Inr y \<longleftrightarrow> (\<exists>x. m = Inr x \<and> f x = Inr y)"
  by (cases m) simp_all

text \<open>The eleven scalars that are copied, for any item the projection accepts.\<close>

lemma anime_item_scalars:
  assumes "anime_item a = Inr y"
  shows "js_prop y ''episodes'' = js_prop a ''episodes''"
    and "js_prop y ''rating'' = js_prop a ''rating''"
    and "js_prop y ''type'' = js_prop a ''type''"
    and "js_prop y ''source'' = js_prop a ''source''"
    and "js_prop y ''status'' = js_prop a ''status''"
    and "js_prop y ''score'' = js_prop a ''score''"
    and "js_prop y ''rank'' = js_prop a ''rank''"
    and "js_prop y ''popularity'' = js_prop a ''popularity''"
    and "js_prop y ''synopsis'' = js_prop a ''synopsis''"
    and "js_prop y ''season'' = js_prop a ''season''"
    and "js_prop y ''year'' = js_prop a ''year''"
    and "js_prop y ''background'' = JUndefined"
  using assms unfolding anime_item_def and_then_eq_Inr by auto

end
